theory Spec2Isabelle
  imports Main
begin

section \<open>Python values, errors and text\<close>

text \<open>
  The exceptions that \<^verbatim>\<open>workflow.py\<close> raises or lets through. A function that can raise
  returns \<open>error + 'a\<close>, with \<open>Inl\<close> for the exception.
\<close>

datatype error =
    AttributeError
  | TypeError
  | ValueError
  | NotImplementedError
  | FileNotFoundError
  | PermissionError
  | KeyboardInterrupt
  | EOFError
  | CalledProcessError nat

text \<open>
  A \<^verbatim>\<open>datetime.date\<close>. Python keeps \<open>1 \<le> year \<le> 9999\<close>, \<open>1 \<le> month \<le> 12\<close> and
  \<open>1 \<le> day \<le> 31\<close>, so \<^verbatim>\<open>%Y\<close> has four digits and \<^verbatim>\<open>%m\<close>, \<^verbatim>\<open>%d\<close> have two
  (zero padded, as on the Windows deployment the script is written for).
\<close>

record pydate =
  year :: nat
  month :: nat
  day :: nat

text \<open>
  The values a metadata field or an override can hold:
  \<^item> \<open>PNone\<close>: \<^verbatim>\<open>None\<close>;
  \<^item> \<open>PText s\<close>: the \<^verbatim>\<open>str\<close> \<open>s\<close>, truthy unless it is empty;
  \<^item> \<open>PNumber nz s\<close>: a number (\<^verbatim>\<open>int\<close>, \<^verbatim>\<open>float\<close>, \<^verbatim>\<open>bool\<close>) whose \<^verbatim>\<open>str()\<close> is \<open>s\<close>;
    \<open>nz\<close> tells whether it differs from zero, which is its truth value;
  \<^item> \<open>PDate d\<close>: a date, always truthy.
\<close>

datatype pyval = PNone | PText string | PNumber bool string | PDate pydate

text \<open>The decimal digit for \<open>n mod 10\<close>.\<close>

definition digit_char :: "nat \<Rightarrow> char" where
  "digit_char n = ''0123456789'' ! (n mod 10)"

definition d2 :: "nat \<Rightarrow> string" where
  "d2 n = [digit_char (n div 10 mod 10), digit_char (n mod 10)]"

definition d4 :: "nat \<Rightarrow> string" where
  "d4 n = [digit_char (n div 1000 mod 10), digit_char (n div 100 mod 10),
           digit_char (n div 10 mod 10), digit_char (n mod 10)]"

text \<open>\<^verbatim>\<open>str(n)\<close> for a non-negative integer.\<close>

fun str_nat :: "nat \<Rightarrow> string" where
  "str_nat n = (if n < 10 then [digit_char n] else str_nat (n div 10) @ [digit_char (n mod 10)])"

declare str_nat.simps [simp del]

text \<open>\<^verbatim>\<open>f'{d:%Y%m%d}'\<close>, \<^verbatim>\<open>f'{d:%Y}'\<close> and \<^verbatim>\<open>f'{d:%Y-%m-%d}'\<close> on a date.\<close>

definition fmt_Ymd :: "pydate \<Rightarrow> string" where
  "fmt_Ymd d = d4 (year d) @ d2 (month d) @ d2 (day d)"

definition fmt_Y :: "pydate \<Rightarrow> string" where
  "fmt_Y d = d4 (year d)"

definition fmt_Y_m_d :: "pydate \<Rightarrow> string" where
  "fmt_Y_m_d d = d4 (year d) @ ''-'' @ d2 (month d) @ ''-'' @ d2 (day d)"

text \<open>
  A replacement field with a \<^verbatim>\<open>strftime\<close> format specification: only a date accepts it;
  \<^verbatim>\<open>format\<close> of a \<^verbatim>\<open>str\<close>, a number or \<^verbatim>\<open>None\<close> with such a specification raises.
\<close>

definition format_date :: "(pydate \<Rightarrow> string) \<Rightarrow> pyval \<Rightarrow> error + string" where
  "format_date fmt v =
     (case v of
        PDate d \<Rightarrow> Inr (fmt d)
      | PText s \<Rightarrow> Inl ValueError
      | PNumber nz s \<Rightarrow> Inl ValueError
      | PNone \<Rightarrow> Inl TypeError)"

text \<open>A replacement field without a format specification: \<^verbatim>\<open>str(v)\<close>.\<close>

definition py_str :: "pyval \<Rightarrow> string" where
  "py_str v =
     (case v of PNone \<Rightarrow> ''None'' | PText s \<Rightarrow> s | PNumber nz s \<Rightarrow> s | PDate d \<Rightarrow> fmt_Y_m_d d)"

text \<open>The truth value of \<^verbatim>\<open>not v\<close>, negated: \<^verbatim>\<open>None\<close>, \<^verbatim>\<open>''\<close>, \<^verbatim>\<open>0\<close>, \<^verbatim>\<open>0.0\<close> and \<^verbatim>\<open>False\<close> are falsy.\<close>

definition truthy :: "pyval \<Rightarrow> bool" where
  "truthy v =
     (case v of PNone \<Rightarrow> False | PText s \<Rightarrow> s \<noteq> [] | PNumber nz s \<Rightarrow> nz | PDate d \<Rightarrow> True)"

text \<open>\<^verbatim>\<open>d.get(k, default)\<close>.\<close>

definition dict_get :: "('k \<rightharpoonup> 'v) \<Rightarrow> 'k \<Rightarrow> 'v \<Rightarrow> 'v" where
  "dict_get d k dflt = (case d k of None \<Rightarrow> dflt | Some v \<Rightarrow> v)"

text \<open>\<^verbatim>\<open>name.replace('.', ' ')\<close>: every full stop becomes a space.\<close>

definition replace_dots :: "string \<Rightarrow> string" where
  "replace_dots s = map (\<lambda>c. if c = CHR ''.'' then CHR '' '' else c) s"

section \<open>The metadata record and the workflow object\<close>

text \<open>
  The attributes of \<^verbatim>\<open>Photo\<close> that \<^verbatim>\<open>workflow.py\<close> reads. The class itself
  (\<^verbatim>\<open>photo.py\<close>) is not part of the sources at hand, so its constructor is a parameter
  \<open>ctor\<close> of the functions below: it takes the file path and the optional \<^verbatim>\<open>number\<close>
  keyword argument.
\<close>

record photo =
  path :: string
  number :: pyval
  exposure_bias :: pyval
  exposure_value :: pyval
  brightness :: pyval
  iso :: pyval
  ss :: pyval
  lens :: pyval
  extension :: string
  date :: pyval
  camera :: pyval
  checksum :: string

type_synonym photo_ctor = "string \<Rightarrow> pyval option \<Rightarrow> photo"

text \<open>The parameter \<^verbatim>\<open>photo : Photo | str\<close>.\<close>

datatype photo_arg = PhotoObj photo | PathStr string

record workflow =
  raw_path :: string
  jpg_path :: string
  backup_path :: string
  raw_extension :: string
  dry_run :: bool
  sd_card :: string

section \<open>Path Builder\<close>

text \<open>
  \<^verbatim>\<open>Workflow.generate_name(photo, short=False, properties=None)\<close>. The dictionary
  \<open>props\<close> is built by \<^verbatim>\<open>properties.get(key, photo.attr)\<close>; with \<^verbatim>\<open>properties\<close> left at
  its default \<^verbatim>\<open>None\<close> the first of these lookups raises \<^verbatim>\<open>AttributeError\<close>.
  \<open>resolve_photo\<close> is the first step of the method: a path is turned into a \<^verbatim>\<open>Photo\<close>,
  with the \<^verbatim>\<open>number\<close> override passed on when there is one.
\<close>

definition resolve_photo :: "photo_ctor \<Rightarrow> photo_arg \<Rightarrow> (string \<rightharpoonup> pyval) option \<Rightarrow> photo" where
  "resolve_photo ctor arg properties =
     (case arg of
        PhotoObj p \<Rightarrow> p
      | PathStr s \<Rightarrow>
          (case properties of
             None \<Rightarrow> ctor s None
           | Some d \<Rightarrow> (case d ''number'' of None \<Rightarrow> ctor s None | Some n \<Rightarrow> ctor s (Some n))))"

definition generate_name ::
  "photo_ctor \<Rightarrow> photo_arg \<Rightarrow> bool \<Rightarrow> (string \<rightharpoonup> pyval) option \<Rightarrow> error + string" where
  "generate_name ctor arg short properties =
    (let ph = resolve_photo ctor arg properties
     in case properties of
          None \<Rightarrow> Inl AttributeError
        | Some d \<Rightarrow>
           (let num = dict_get d ''number'' (number ph);
                eb = dict_get d ''exposure_bias'' (exposure_bias ph);
                ev = dict_get d ''exposure_value'' (exposure_value ph);
                b = dict_get d ''brightness'' (brightness ph);
                iso' = dict_get d ''iso'' (iso ph);
                ss' = dict_get d ''ss'' (ss ph);
                lens' = dict_get d ''lens'' (lens ph);
                ext = dict_get d ''extension'' (PText (extension ph));
                date' = dict_get d ''date'' (date ph);
                camera' = dict_get d ''camera'' (camera ph)
            in if short then
                 Inr (replace_dots
                        (py_str num @ ''_'' @ py_str eb @ ''EB_'' @ py_str ev @ ''EV_'' @ py_str b
                          @ ''B_'' @ py_str iso' @ ''ISO_'' @ py_str ss' @ ''SS'')
                      @ ''.'' @ py_str ext)
               else
                 (case (if \<not> truthy date' then Inr ''00000000'' else format_date fmt_Ymd date') of
                    Inl e \<Rightarrow> Inl e
                  | Inr ds \<Rightarrow>
                      Inr (replace_dots
                             (ds @ ''_'' @ py_str camera' @ ''_'' @ py_str num @ ''_'' @ py_str eb
                               @ ''EB_'' @ py_str ev @ ''EV_'' @ py_str b @ ''B_'' @ py_str iso'
                               @ ''ISO_'' @ py_str ss' @ ''SS_'' @ py_str lens')
                           @ ''.'' @ py_str ext))))"

text \<open>
  \<^verbatim>\<open>Workflow.generate_path(photo)\<close>. \<open>generate_path_with\<close> is the body of the method
  with the \<^verbatim>\<open>properties\<close> argument of its two \<^verbatim>\<open>generate_name\<close> calls made explicit;
  the method itself passes none, so both calls run with the default \<^verbatim>\<open>None\<close>.
  \<open>buffer\<close> is a Python integer and may be negative. \<^verbatim>\<open>FilePath(path)\<close> is the path text.
\<close>

definition generate_path_with ::
  "(string \<rightharpoonup> pyval) option \<Rightarrow> photo_ctor \<Rightarrow> workflow \<Rightarrow> photo_arg \<Rightarrow> error + string" where
  "generate_path_with properties ctor self arg =
    (let ph = (case arg of PhotoObj p \<Rightarrow> p | PathStr s \<Rightarrow> ctor s None)
     in case generate_name ctor (PhotoObj ph) False properties of
          Inl e \<Rightarrow> Inl e
        | Inr filename \<Rightarrow>
           (let buffer = 254 - int (length (raw_path self)) - int (length (extension ph)) - 4 - 16
            in case (if buffer < 1 then Inl ValueError
                     else if buffer < int (length filename) then
                       (case generate_name ctor (PhotoObj ph) True properties of
                          Inl e \<Rightarrow> Inl e
                        | Inr short_name \<Rightarrow>
                            if buffer < int (length short_name)
                            then Inr (take (nat buffer) short_name @ ''---.'' @ extension ph)
                            else Inr short_name)
                     else Inr filename) of
                 Inl e \<Rightarrow> Inl e
               | Inr filename' \<Rightarrow>
                  (case (if date ph = PNone then Inr (''0000'', ''0000-00-00'')
                         else (case format_date fmt_Y (date ph) of
                                 Inl e \<Rightarrow> Inl e
                               | Inr y \<Rightarrow> (case format_date fmt_Y_m_d (date ph) of
                                             Inl e \<Rightarrow> Inl e
                                           | Inr dt \<Rightarrow> Inr (y, dt)))) of
                     Inl e \<Rightarrow> Inl e
                   | Inr (y, dt) \<Rightarrow> Inr (raw_path self @ ''/'' @ y @ ''/'' @ dt @ ''/'' @ filename'))))"

definition generate_path :: "photo_ctor \<Rightarrow> workflow \<Rightarrow> photo_arg \<Rightarrow> error + string" where
  "generate_path ctor self arg = generate_path_with None ctor self arg"

section \<open>The world outside the workflow\<close>

text \<open>
  What a subprocess started by \<^verbatim>\<open>subprocess.check_call\<close> does: it exits with a status, or
  the program cannot be started at all.
\<close>

datatype outcome = Exit nat | NoSuchProgram

text \<open>
  \<^verbatim>\<open>CopyOperation\<close> (\<^verbatim>\<open>operations.py\<close>, not at hand): the two members the workflow names,
  and \<open>OTHER\<close> for any further member, which \<^verbatim>\<open>copy_from_list\<close> rejects.
\<close>

datatype CopyOperation = TERACOPY | RSYNC | OTHER

text \<open>
  The state the workflow reads and changes, and the collaborators it calls.
  Changed by the workflow:
  \<^item> \<open>files\<close>: the regular files, each with the hash of its content;
  \<^item> \<open>dirs\<close>: the directories;
  \<^item> \<open>calls\<close>: the command lines passed to \<^verbatim>\<open>subprocess.check_call\<close> so far;
  \<^item> \<open>stdin\<close>: the lines the operator will type at the next prompts;
  \<^item> \<open>bucket_cache\<close>: the attribute \<^verbatim>\<open>_bucket_path\<close> of the workflow object.

  Given from outside (modules \<^verbatim>\<open>config\<close>, \<^verbatim>\<open>validator\<close>, \<^verbatim>\<open>photo\<close>, \<^verbatim>\<open>sd\<close>, \<^verbatim>\<open>queue\<close>
  and the operating system, none of them at hand, so each is a parameter):
  \<^item> \<open>MAX_RETRIES\<close>: the constant of \<^verbatim>\<open>config.py\<close>;
  \<^item> \<open>run_cmd k argv\<close>: what the \<open>k\<close>-th subprocess does when started with \<open>argv\<close>;
  \<^item> \<open>writeable\<close>: \<^verbatim>\<open>Validator.is_writeable\<close>;
  \<^item> \<open>walk top\<close>: the pairs (directory, file names) that \<^verbatim>\<open>os.walk(top)\<close> yields;
  \<^item> \<open>Photo\<close>: the constructor of \<^verbatim>\<open>Photo\<close>; \<open>is_jpg\<close>: its method of that name;
  \<^item> \<open>determine_subpath\<close>: the method of \<^verbatim>\<open>SDCard\<close>;
  \<^item> \<open>list_file\<close>: the path \<^verbatim>\<open>Queue.write\<close> writes the list of a destination to;
  \<^item> \<open>validate_checksums\<close>, \<open>validate_checksum_list\<close>: the checks of \<^verbatim>\<open>Validator\<close>
    after a copy, whose outcome depends on what the external copy tool did.
\<close>

record world =
  files :: "string \<rightharpoonup> string"
  dirs :: "string \<Rightarrow> bool"
  calls :: "string list list"
  stdin :: "string list"
  bucket_cache :: "string option"
  MAX_RETRIES :: int
  run_cmd :: "nat \<Rightarrow> string list \<Rightarrow> outcome"
  writeable :: "string \<Rightarrow> bool"
  walk :: "string \<Rightarrow> (string \<times> string list) list"
  Photo :: photo_ctor
  is_jpg :: "photo \<Rightarrow> bool"
  determine_subpath :: "string \<Rightarrow> string"
  list_file :: "string \<Rightarrow> string"
  validate_checksums :: "(string \<rightharpoonup> string) \<Rightarrow> string \<Rightarrow> bool"
  validate_checksum_list :: "(string \<rightharpoonup> string) \<Rightarrow> (string \<times> string option) list \<Rightarrow> bool"

text \<open>The exception a call ended with, if it raised.\<close>

definition raised :: "(error + 'a) \<times> world \<Rightarrow> error option" where
  "raised r = (case fst r of Inl e \<Rightarrow> Some e | Inr x \<Rightarrow> None)"

subsection \<open>Operating system calls\<close>

text \<open>\<^verbatim>\<open>os.path.exists\<close> and \<^verbatim>\<open>Validator.is_dir\<close>.\<close>

definition path_exists :: "world \<Rightarrow> string \<Rightarrow> bool" where
  "path_exists w p = (files w p \<noteq> None \<or> dirs w p)"

definition is_dir :: "world \<Rightarrow> string \<Rightarrow> bool" where
  "is_dir w p = dirs w p"

text \<open>\<^verbatim>\<open>os.path.join\<close> of two components and \<^verbatim>\<open>os.path.dirname\<close>, \<^verbatim>\<open>os.path.basename\<close>, with \<^verbatim>\<open>/\<close> as separator.\<close>

definition path_join :: "string \<Rightarrow> string \<Rightarrow> string" where
  "path_join a b =
     (if b \<noteq> [] \<and> hd b = CHR ''/'' then b
      else if a = [] \<or> last a = CHR ''/'' then a @ b
      else a @ ''/'' @ b)"

definition basename :: "string \<Rightarrow> string" where
  "basename p = rev (takeWhile (\<lambda>c. c \<noteq> CHR ''/'') (rev p))"

definition dirname :: "string \<Rightarrow> string" where
  "dirname p =
     (let head = rev (dropWhile (\<lambda>c. c \<noteq> CHR ''/'') (rev p))
      in if head \<noteq> [] \<and> (\<exists>c \<in> set head. c \<noteq> CHR ''/'')
         then rev (dropWhile (\<lambda>c. c = CHR ''/'') (rev head))
         else head)"

text \<open>\<^verbatim>\<open>os.makedirs(p, exist_ok=True)\<close>: afterwards \<open>p\<close> is a directory; no file changes.\<close>

definition makedirs :: "string \<Rightarrow> world \<Rightarrow> world" where
  "makedirs p w = w\<lparr>dirs := (dirs w)(p := True)\<rparr>"

text \<open>\<^verbatim>\<open>os.rename(src, dst)\<close>: the file moves with its content; a missing source raises.\<close>

definition os_rename :: "string \<Rightarrow> string \<Rightarrow> world \<Rightarrow> (error + unit) \<times> world" where
  "os_rename src dst w =
     (case files w src of
        None \<Rightarrow> (Inl FileNotFoundError, w)
      | Some content \<Rightarrow> (Inr (), w\<lparr>files := (files w)(src := None, dst \<mapsto> content)\<rparr>))"

text \<open>
  \<^verbatim>\<open>subprocess.check_call(argv)\<close>: the call is logged; a non-zero exit status raises
  \<^verbatim>\<open>CalledProcessError\<close>, a program that cannot be started raises \<^verbatim>\<open>FileNotFoundError\<close>.
\<close>

definition check_call :: "string list \<Rightarrow> world \<Rightarrow> (error + unit) \<times> world" where
  "check_call argv w =
     (let w' = w\<lparr>calls := calls w @ [argv]\<rparr>
      in case run_cmd w (length (calls w)) argv of
           Exit rc \<Rightarrow> (if rc = 0 then Inr () else Inl (CalledProcessError rc), w')
         | NoSuchProgram \<Rightarrow> (Inl FileNotFoundError, w'))"

text \<open>
  \<^verbatim>\<open>Workflow.ask_user_continue\<close>: one line is read; \<^verbatim>\<open>choice.lower() == 'y'\<close> continues,
  anything else raises \<^verbatim>\<open>KeyboardInterrupt\<close> when \<open>throw_error\<close> is set (the default) and
  returns false otherwise. \<^verbatim>\<open>input\<close> at the end of the input raises \<^verbatim>\<open>EOFError\<close>.
\<close>

definition ask_user_continue :: "bool \<Rightarrow> world \<Rightarrow> (error + bool) \<times> world" where
  "ask_user_continue throw_error w =
     (case stdin w of
        [] \<Rightarrow> (Inl EOFError, w)
      | choice # rest \<Rightarrow>
          (let w' = w\<lparr>stdin := rest\<rparr>
           in if choice = ''y'' \<or> choice = ''Y'' then (Inr True, w')
              else if throw_error then (Inl KeyboardInterrupt, w')
              else (Inr False, w')))"

text \<open>
  The property \<^verbatim>\<open>Workflow.bucket_path\<close>: computed on first use, when the directory is
  created if need be and must be writeable; the attribute is set before that check.
\<close>

definition bucket_path :: "workflow \<Rightarrow> world \<Rightarrow> (error + string) \<times> world" where
  "bucket_path self w =
     (case bucket_cache w of
        Some p \<Rightarrow> (Inr p, w)
      | None \<Rightarrow>
          (let p = path_join (raw_path self) ''Import Bucket'';
               w1 = w\<lparr>bucket_cache := Some p\<rparr>;
               w2 = (if \<not> is_dir w1 p then makedirs p w1 else w1)
           in if \<not> writeable w2 p then (Inl PermissionError, w2) else (Inr p, w2)))"

section \<open>Copy Executor\<close>

text \<open>
  \<^verbatim>\<open>Workflow.rsync\<close>: \<^verbatim>\<open>for _ in range(MAX_RETRIES)\<close> runs \<open>nat MAX_RETRIES\<close> times at most.
  Only \<^verbatim>\<open>CalledProcessError\<close> is caught; the pause of one second changes nothing here.
\<close>

fun rsync_attempts :: "nat \<Rightarrow> string \<Rightarrow> string \<Rightarrow> world \<Rightarrow> (error + bool) \<times> world" where
  "rsync_attempts 0 source_path destination_path w = (Inr False, w)"
| "rsync_attempts (Suc n) source_path destination_path w =
     (case check_call [''rsync'', ''-av'', ''--checksum'', source_path, destination_path] w of
        (Inr u, w') \<Rightarrow> (Inr True, w')
      | (Inl e, w') \<Rightarrow>
          (case e of
             CalledProcessError rc \<Rightarrow> rsync_attempts n source_path destination_path w'
           | _ \<Rightarrow> (Inl e, w')))"

definition rsync :: "string \<Rightarrow> string \<Rightarrow> world \<Rightarrow> (error + bool) \<times> world" where
  "rsync source_path destination_path w =
     rsync_attempts (nat (MAX_RETRIES w)) source_path destination_path w"

text \<open>\<^verbatim>\<open>Workflow.teracopy\<close> and \<^verbatim>\<open>Workflow.teracopy_from_list\<close>: one attempt each.\<close>

definition teracopy :: "string \<Rightarrow> string \<Rightarrow> world \<Rightarrow> (error + bool) \<times> world" where
  "teracopy source_path destination_path w =
     (case check_call [''teracopy.exe'', ''Copy'', source_path, destination_path,
                       ''/NoClose'', ''/RenameAll''] w of
        (Inr u, w') \<Rightarrow> (Inr True, w')
      | (Inl e, w') \<Rightarrow> (case e of CalledProcessError rc \<Rightarrow> (Inr False, w') | _ \<Rightarrow> (Inl e, w')))"

definition teracopy_from_list :: "string \<Rightarrow> string \<Rightarrow> world \<Rightarrow> (error + bool) \<times> world" where
  "teracopy_from_list list_path destination_path w =
     (if \<not> path_exists w list_path then (Inl FileNotFoundError, w)
      else
        (case check_call [''teracopy.exe'', ''Copy'', [CHR ''*'', CHR 0x22] @ list_path @ [CHR 0x22],
                          destination_path, ''/NoClose'', ''/SkipAll''] w of
           (Inr u, w') \<Rightarrow> (Inr True, w')
         | (Inl e, w') \<Rightarrow> (case e of CalledProcessError rc \<Rightarrow> (Inr False, w') | _ \<Rightarrow> (Inl e, w'))))"

text \<open>
  \<^verbatim>\<open>Workflow.copy_from_list\<close>. The operation is chosen first, then dry-run is refused, then
  the copy runs and the checksums are validated; after each failure the operator is asked.
\<close>

definition copy_from_list ::
  "workflow \<Rightarrow> string \<Rightarrow> string \<Rightarrow> (string \<rightharpoonup> string) \<Rightarrow> CopyOperation \<Rightarrow> world
     \<Rightarrow> (error + bool) \<times> world" where
  "copy_from_list self list_path destination_path checksums_before operation w =
     (case operation of
        RSYNC \<Rightarrow> (Inl NotImplementedError, w)
      | OTHER \<Rightarrow> (Inl ValueError, w)
      | TERACOPY \<Rightarrow>
          if dry_run self then (Inl NotImplementedError, w)
          else
            (case teracopy_from_list list_path destination_path w of
               (Inl e, w1) \<Rightarrow> (Inl e, w1)
             | (Inr copied, w1) \<Rightarrow>
                 (case (if \<not> copied then ask_user_continue True w1 else (Inr True, w1)) of
                    (Inl e, w2) \<Rightarrow> (Inl e, w2)
                  | (Inr u, w2) \<Rightarrow>
                      if \<not> validate_checksums w2 checksums_before destination_path
                      then (case ask_user_continue True w2 of
                              (Inl e, w3) \<Rightarrow> (Inl e, w3)
                            | (Inr u', w3) \<Rightarrow> (Inr False, w3))
                      else (Inr copied, w2))))"

section \<open>Copy Queue\<close>

text \<open>
  Modelled from the spec: the class \<^verbatim>\<open>Queue\<close> (\<^verbatim>\<open>queue.py\<close>) is missing from the sources.
  Following the data model of the specification, a queue maps each destination root to
  the ordered sequence of (source file, subpath under the root) queued for it, and keeps
  the checksum of every queued source file as captured at its first enqueue.
  \<^verbatim>\<open>append_parts(photo, [root, folder, filename])\<close> queues the photo for \<open>root\<close> under the
  subpath \<open>[folder, filename]\<close>. The mapping keeps the order of first insertion, as a Python
  dictionary does.
\<close>

record copy_queue =
  queue :: "(string \<times> (photo \<times> string list) list) list"
  checksums :: "string \<rightharpoonup> string"

definition empty_queue :: copy_queue where
  "empty_queue = \<lparr>queue = [], checksums = Map.empty\<rparr>"

fun enqueue :: "string \<Rightarrow> 'a \<Rightarrow> (string \<times> 'a list) list \<Rightarrow> (string \<times> 'a list) list" where
  "enqueue d x [] = [(d, [x])]"
| "enqueue d x ((d', xs) # rest) =
     (if d = d' then (d', xs @ [x]) # rest else (d', xs) # enqueue d x rest)"

definition append_parts :: "photo \<Rightarrow> string list \<Rightarrow> copy_queue \<Rightarrow> copy_queue" where
  "append_parts ph parts q =
     (case parts of
        [] \<Rightarrow> q
      | root # sub \<Rightarrow>
          q\<lparr>queue := enqueue root (ph, sub) (queue q),
            checksums := (if checksums q (path ph) = None
                          then (checksums q)(path ph \<mapsto> checksum ph) else checksums q)\<rparr>)"

text \<open>The photos queued for a destination root, in order.\<close>

definition queued_for :: "copy_queue \<Rightarrow> string \<Rightarrow> photo list" where
  "queued_for q d = map fst (concat (map snd (filter (\<lambda>e. fst e = d) (queue q))))"

text \<open>
  Modelled from the spec: \<^verbatim>\<open>Queue.write(destination)\<close> writes the source paths queued for the
  destination, one per line, to the list file of that destination and returns its path.
\<close>

definition queue_write :: "copy_queue \<Rightarrow> string \<Rightarrow> world \<Rightarrow> string \<times> world" where
  "queue_write q destination w =
     (let list_path = list_file w destination;
          text = concat (map (\<lambda>ph. path ph @ [CHR 0x0A]) (queued_for q destination))
      in (list_path, w\<lparr>files := (files w)(list_path \<mapsto> text)\<rparr>))"

text \<open>
  Modelled from the spec: \<^verbatim>\<open>Photo.matches(path)\<close> holds when the file at \<open>path\<close> has the
  content hash of the photo.
\<close>

definition matches :: "world \<Rightarrow> photo \<Rightarrow> string \<Rightarrow> bool" where
  "matches w ph p = (files w p = Some (checksum ph))"

text \<open>
  \<^verbatim>\<open>Workflow.queue_files\<close>. \<open>queue_dir\<close> is the inner loop over the file names of one
  directory, \<open>queue_walk\<close> the outer loop over what \<^verbatim>\<open>os.walk\<close> yields. As for
  \<open>generate_path_with\<close>, the \<^verbatim>\<open>properties\<close> argument that reaches \<^verbatim>\<open>generate_name\<close> is
  explicit; the method itself runs with \<^verbatim>\<open>None\<close>. \<^verbatim>\<open>self.bucket_path\<close> is evaluated only
  when a raw file is appended.
\<close>

fun queue_dir ::
  "(string \<rightharpoonup> pyval) option \<Rightarrow> workflow \<Rightarrow> string \<Rightarrow> string list \<Rightarrow> copy_queue \<Rightarrow> world
     \<Rightarrow> (error + copy_queue) \<times> world" where
  "queue_dir properties self root [] q w = (Inr q, w)"
| "queue_dir properties self root (filename # rest) q w =
     (let filepath = path_join root filename;
          folder = determine_subpath w filepath;
          ph = Photo w filepath None
      in if extension ph = raw_extension self then
           (case generate_path_with properties (Photo w) self (PhotoObj ph) of
              Inl e \<Rightarrow> (Inl e, w)
            | Inr final_path \<Rightarrow>
                (case (if \<not> path_exists w final_path \<or> \<not> matches w ph final_path
                       then (case bucket_path self w of
                               (Inl e, w1) \<Rightarrow> (Inl e, w1)
                             | (Inr bucket, w1) \<Rightarrow>
                                 (Inr (append_parts ph [bucket, folder, filename] q), w1))
                       else (Inr q, w)) of
                   (Inl e, w1) \<Rightarrow> (Inl e, w1)
                 | (Inr q1, w1) \<Rightarrow>
                     queue_dir properties self root rest
                       (append_parts ph [backup_path self, folder, filename] q1) w1))
         else if is_jpg w ph then
           queue_dir properties self root rest
             (append_parts ph [backup_path self, folder, filename]
                (append_parts ph [jpg_path self, folder, filename] q)) w
         else queue_dir properties self root rest q w)"

fun queue_walk ::
  "(string \<rightharpoonup> pyval) option \<Rightarrow> workflow \<Rightarrow> (string \<times> string list) list \<Rightarrow> copy_queue \<Rightarrow> world
     \<Rightarrow> (error + copy_queue) \<times> world" where
  "queue_walk properties self [] q w = (Inr q, w)"
| "queue_walk properties self ((root, filenames) # rest) q w =
     (case queue_dir properties self root filenames q w of
        (Inl e, w1) \<Rightarrow> (Inl e, w1)
      | (Inr q1, w1) \<Rightarrow> queue_walk properties self rest q1 w1)"

definition queue_files_with ::
  "(string \<rightharpoonup> pyval) option \<Rightarrow> workflow \<Rightarrow> world \<Rightarrow> (error + copy_queue) \<times> world" where
  "queue_files_with properties self w =
     queue_walk properties self (walk w (sd_card self)) empty_queue w"

definition queue_files :: "workflow \<Rightarrow> world \<Rightarrow> (error + copy_queue) \<times> world" where
  "queue_files self w = queue_files_with None self w"

section \<open>Reorganizer\<close>

text \<open>
  A result dictionary \<^verbatim>\<open>dict[str, str]\<close> whose values may be \<^verbatim>\<open>None\<close>, in insertion order.
  \<open>dict_set\<close> is \<^verbatim>\<open>d[k] = v\<close>.
\<close>

type_synonym results = "(string \<times> string option) list"

fun dict_set :: "'k \<Rightarrow> 'v \<Rightarrow> ('k \<times> 'v) list \<Rightarrow> ('k \<times> 'v) list" where
  "dict_set k v [] = [(k, v)]"
| "dict_set k v ((k', v') # rest) =
     (if k = k' then (k, v) # rest else (k', v') # dict_set k v rest)"

text \<open>
  Modelled from the spec: \<^verbatim>\<open>Validator.compare_checksums(a, b)\<close> (\<^verbatim>\<open>validator.py\<close> is
  missing) is the equality check of the content of two files.
\<close>

definition compare_checksums :: "world \<Rightarrow> string \<Rightarrow> string \<Rightarrow> bool" where
  "compare_checksums w a b =
     (case (files w a, files w b) of (Some x, Some y) \<Rightarrow> x = y | _ \<Rightarrow> False)"

text \<open>
  The search for a free name in \<^verbatim>\<open>organize_files\<close>:
  \<^verbatim>\<open>for i in range(1, 1000): new_file_path = f'{mismatched_file_path} ({i})'\<close>, left at the
  first candidate that does not exist. The last argument is \<^verbatim>\<open>new_file_path\<close> as it stands
  when the loop is entered or continued.
\<close>

definition candidate :: "string \<Rightarrow> nat \<Rightarrow> string" where
  "candidate mismatched_file_path i = mismatched_file_path @ '' ('' @ str_nat i @ '')''"

fun unique_name :: "(string \<Rightarrow> bool) \<Rightarrow> string \<Rightarrow> nat list \<Rightarrow> string \<Rightarrow> string" where
  "unique_name ex mismatched_file_path [] new_file_path = new_file_path"
| "unique_name ex mismatched_file_path (i # rest) new_file_path =
     (if \<not> ex (candidate mismatched_file_path i) then candidate mismatched_file_path i
      else unique_name ex mismatched_file_path rest (candidate mismatched_file_path i))"

text \<open>The end of the loop body: the rename (unless dry-run) and the entry in the results.\<close>

definition move_file ::
  "workflow \<Rightarrow> string \<Rightarrow> string \<Rightarrow> results \<Rightarrow> world \<Rightarrow> (error + results) \<times> world" where
  "move_file self file_path new_file_path res w =
     (if \<not> dry_run self then
        (case os_rename file_path new_file_path w of
           (Inl e, w') \<Rightarrow> (Inl e, w')
         | (Inr u, w') \<Rightarrow> (Inr (dict_set file_path (Some new_file_path) res), w'))
      else (Inr (dict_set file_path (Some new_file_path) res), w))"

text \<open>
  The loop body of \<^verbatim>\<open>organize_files\<close> from \<^verbatim>\<open># Do not clobber existing files\<close> on: what
  happens to one staged file once its canonical path \<open>new_file_path\<close> is known.
\<close>

definition place_file ::
  "workflow \<Rightarrow> string \<Rightarrow> string \<Rightarrow> results \<Rightarrow> world \<Rightarrow> (error + results) \<times> world" where
  "place_file self file_path new_file_path res w =
     (if path_exists w new_file_path then
        if compare_checksums w file_path new_file_path
        then (Inr (dict_set file_path (Some new_file_path) res), w)
        else
          (let new_file_path' = unique_name (path_exists w) new_file_path [1..<1000] new_file_path
           in if path_exists w new_file_path' then
                (case ask_user_continue True w of
                   (Inl e, w') \<Rightarrow> (Inl e, w')
                 | (Inr u, w') \<Rightarrow> (Inr (dict_set file_path None res), w'))
              else move_file self file_path new_file_path' res w)
      else move_file self file_path new_file_path res w)"

text \<open>
  \<^verbatim>\<open>Workflow.organize_files\<close>; again the \<^verbatim>\<open>properties\<close> argument that reaches
  \<^verbatim>\<open>generate_name\<close> through \<^verbatim>\<open>generate_path\<close> is explicit, and the method runs with \<^verbatim>\<open>None\<close>.
\<close>

fun organize_loop ::
  "(string \<rightharpoonup> pyval) option \<Rightarrow> workflow \<Rightarrow> string list \<Rightarrow> results \<Rightarrow> world
     \<Rightarrow> (error + results) \<times> world" where
  "organize_loop properties self [] res w = (Inr res, w)"
| "organize_loop properties self (file_path # rest) res w =
     (case generate_path_with properties (Photo w) self (PathStr file_path) of
        Inl e \<Rightarrow> (Inl e, w)
      | Inr new_file_path \<Rightarrow>
          (case place_file self file_path new_file_path res (makedirs (dirname new_file_path) w) of
             (Inl e, w') \<Rightarrow> (Inl e, w')
           | (Inr res', w') \<Rightarrow> organize_loop properties self rest res' w'))"

definition organize_files_with ::
  "(string \<rightharpoonup> pyval) option \<Rightarrow> workflow \<Rightarrow> world \<Rightarrow> (error + results) \<times> world" where
  "organize_files_with properties self w =
     (case bucket_path self w of
        (Inl e, w1) \<Rightarrow> (Inl e, w1)
      | (Inr bucket, w1) \<Rightarrow>
          if \<not> (path_exists w1 bucket \<and> path_exists w1 (raw_path self))
          then (Inl FileNotFoundError, w1)
          else organize_loop properties self
                 (concat (map (\<lambda>(root, filenames). map (path_join root) filenames) (walk w1 bucket)))
                 [] w1)"

definition organize_files :: "workflow \<Rightarrow> world \<Rightarrow> (error + results) \<times> world" where
  "organize_files self w = organize_files_with None self w"

section \<open>Workflow Orchestrator\<close>

text \<open>
  A call \<^verbatim>\<open>self.organize_files(...)\<close> with the given positional arguments: the method is
  declared \<^verbatim>\<open>def organize_files(self)\<close>, so any argument makes the call raise \<^verbatim>\<open>TypeError\<close>.
\<close>

definition call_organize_files ::
  "workflow \<Rightarrow> string list \<Rightarrow> world \<Rightarrow> (error + results) \<times> world" where
  "call_organize_files self args w =
     (if args \<noteq> [] then (Inl TypeError, w) else organize_files self w)"

text \<open>
  The copy loop of \<^verbatim>\<open>run\<close> over \<^verbatim>\<open>queue.get_queue()\<close>, collecting the error messages.
\<close>

fun copy_all ::
  "workflow \<Rightarrow> CopyOperation \<Rightarrow> copy_queue \<Rightarrow> (string \<times> (photo \<times> string list) list) list
     \<Rightarrow> string list \<Rightarrow> world \<Rightarrow> (error + string list) \<times> world" where
  "copy_all self operation q [] errors w = (Inr errors, w)"
| "copy_all self operation q ((destination, fs) # rest) errors w =
     (case queue_write q destination w of
        (list_path, w1) \<Rightarrow>
          (case copy_from_list self list_path destination (checksums q) operation w1 of
             (Inl e, w2) \<Rightarrow> (Inl e, w2)
           | (Inr result, w2) \<Rightarrow>
               copy_all self operation q rest
                 (if \<not> result then errors @ [''Copy operation failed to '' @ destination] else errors)
                 w2))"

text \<open>
  \<^verbatim>\<open>Workflow.run\<close>. After the copies it evaluates \<^verbatim>\<open>self.bucket_path\<close> and calls
  \<^verbatim>\<open>self.organize_files(self.bucket_path)\<close>, with one argument.
\<close>

definition run :: "workflow \<Rightarrow> CopyOperation \<Rightarrow> world \<Rightarrow> (error + bool) \<times> world" where
  "run self operation w =
     (if \<not> list_all (is_dir w) [sd_card self, raw_path self, jpg_path self, backup_path self]
      then (Inr False, w)
      else if \<not> list_all (writeable w) [raw_path self, jpg_path self, backup_path self]
      then (Inr False, w)
      else
        (case queue_files self w of
           (Inl e, w1) \<Rightarrow> (Inl e, w1)
         | (Inr q, w1) \<Rightarrow>
             (case copy_all self operation q (queue q) [] w1 of
                (Inl e, w2) \<Rightarrow> (Inl e, w2)
              | (Inr errors, w2) \<Rightarrow>
                  (case bucket_path self w2 of
                     (Inl e, w3) \<Rightarrow> (Inl e, w3)
                   | (Inr bucket, w3) \<Rightarrow>
                       (case call_organize_files self [bucket] w3 of
                          (Inl e, w4) \<Rightarrow> (Inl e, w4)
                        | (Inr res, w4) \<Rightarrow>
                            if res = [] then (Inr False, w4)
                            else
                              (let files' = foldl (\<lambda>fs (temp_file, network_file).
                                                     dict_set (path_join (sd_card self) (basename temp_file))
                                                       network_file fs) [] res;
                                   errors' = (if \<not> validate_checksum_list w4 (checksums q) files'
                                              then errors @ [''Checksum validation failed'']
                                              else errors)
                               in if length errors' > 0 then (Inr False, w4) else (Inr True, w4)))))))"

section \<open>Legacy-format migration\<close>

subsection \<open>Regular expressions as Python's \<^verbatim>\<open>re\<close> matches them\<close>

text \<open>
  The part of the pattern language that \<^verbatim>\<open>old_format_regex\<close> uses, on ASCII text:
  \<^verbatim>\<open>\d\<close> is a decimal digit, \<^verbatim>\<open>\w\<close> a letter, a digit or an underscore, \<^verbatim>\<open>.\<close> any character
  but a newline, \<open>OneOf\<close> a character set such as \<^verbatim>\<open>[. ]\<close>.
\<close>

datatype cclass = Lit char | Digit | Word | AnyChar | OneOf string

fun cmatch :: "cclass \<Rightarrow> char \<Rightarrow> bool" where
  "cmatch (Lit c) x = (x = c)"
| "cmatch Digit x = (x \<in> set ''0123456789'')"
| "cmatch Word x =
     (x \<in> set ''abcdefghijklmnopqrstuvwxyzABCDEFGHIJKLMNOPQRSTUVWXYZ0123456789_'')"
| "cmatch AnyChar x = (x \<noteq> CHR 0x0A)"
| "cmatch (OneOf cs) x = (x \<in> set cs)"

text \<open>
  \<open>Bol\<close> is \<^verbatim>\<open>^\<close> and \<open>Eol\<close> is \<^verbatim>\<open>$\<close>; \<open>Opt\<close> and \<open>Star\<close> are the greedy \<^verbatim>\<open>?\<close> and \<^verbatim>\<open>*\<close>;
  \<open>Group k\<close> is the \<open>k\<close>-th capturing group.
\<close>

datatype regex =
    Eps
  | Sym cclass
  | Bol
  | Eol
  | Seq regex regex
  | Alt regex regex
  | Opt regex
  | Star regex
  | Group nat regex

text \<open>
  A matcher state is the current index into the text and the groups captured so far
  (number, start, end), the latest first. \<open>rmatch r s st\<close> lists the states in which a
  match of \<open>r\<close> begun in \<open>st\<close> can end, in the order in which a backtracking matcher tries
  them. Without \<^verbatim>\<open>re.MULTILINE\<close>, \<^verbatim>\<open>^\<close> matches at index 0 of the text only, wherever the
  match was started, and \<^verbatim>\<open>$\<close> at the end of the text or before a final newline.
\<close>

type_synonym mstate = "nat \<times> (nat \<times> nat \<times> nat) list"

text \<open>
  Iterating \<^verbatim>\<open>*\<close>: one more round first, then none. A round must consume a character,
  so the length of the text bounds the number of rounds.
\<close>

fun star :: "(mstate \<Rightarrow> mstate list) \<Rightarrow> nat \<Rightarrow> mstate \<Rightarrow> mstate list" where
  "star step 0 st = [st]"
| "star step (Suc n) st =
     concat (map (\<lambda>st'. if fst st < fst st' then star step n st' else []) (step st)) @ [st]"

primrec rmatch :: "regex \<Rightarrow> string \<Rightarrow> mstate \<Rightarrow> mstate list" where
  "rmatch Eps s = (\<lambda>st. [st])"
| "rmatch (Sym c) s =
     (\<lambda>st. if fst st < length s \<and> cmatch c (s ! fst st) then [(Suc (fst st), snd st)] else [])"
| "rmatch Bol s = (\<lambda>st. if fst st = 0 then [st] else [])"
| "rmatch Eol s =
     (\<lambda>st. if fst st = length s \<or> (Suc (fst st) = length s \<and> s ! fst st = CHR 0x0A)
           then [st] else [])"
| "rmatch (Seq a b) s = (\<lambda>st. concat (map (rmatch b s) (rmatch a s st)))"
| "rmatch (Alt a b) s = (\<lambda>st. rmatch a s st @ rmatch b s st)"
| "rmatch (Opt a) s = (\<lambda>st. rmatch a s st @ [st])"
| "rmatch (Star a) s = (\<lambda>st. star (rmatch a s) (length s) st)"
| "rmatch (Group k a) s =
     (\<lambda>st. map (\<lambda>st'. (fst st', (k, fst st, fst st') # snd st')) (rmatch a s st))"

text \<open>
  \<^verbatim>\<open>pattern.match(string, pos)\<close>: the match is tried at index \<open>pos\<close> (at the end of the
  text if \<open>pos\<close> is beyond it); the result is the groups of the first match, or \<^verbatim>\<open>None\<close>.
  \<^verbatim>\<open>m.group(k)\<close> is the text of the latest capture of group \<open>k\<close>.
\<close>

definition py_match :: "regex \<Rightarrow> string \<Rightarrow> nat \<Rightarrow> (nat \<times> nat \<times> nat) list option" where
  "py_match r s pos =
     (case rmatch r s (min pos (length s), []) of [] \<Rightarrow> None | st # rest \<Rightarrow> Some (snd st))"

definition group :: "string \<Rightarrow> (nat \<times> nat \<times> nat) list \<Rightarrow> nat \<Rightarrow> pyval" where
  "group s gs k =
     (case map_of gs k of
        None \<Rightarrow> PNone
      | Some (a, b) \<Rightarrow> PText (take (b - a) (drop a s)))"

subsection \<open>The pattern of the old format\<close>

definition lit :: "string \<Rightarrow> regex" where
  "lit cs = foldr (\<lambda>c r. Seq (Sym (Lit c)) r) cs Eps"

definition plus_re :: "regex \<Rightarrow> regex" where
  "plus_re r = Seq r (Star r)"

fun rep :: "nat \<Rightarrow> regex \<Rightarrow> regex" where
  "rep 0 r = Eps"
| "rep (Suc n) r = Seq r (rep n r)"

text \<open>
  \<^verbatim>\<open>^\d{8}-\w+-(\d{3,}|unknown)-(\d+( \d+))?--?\d+( \d+)?--?\d+([. ]\d+)? EV--?\d+([. ]\d+)B-ISO \d+-.*\.arw$\<close>
\<close>

definition old_format_regex :: regex where
  "old_format_regex =
     Seq Bol
      (Seq (rep 8 (Sym Digit))
      (Seq (lit ''-'') (Seq (plus_re (Sym Word)) (Seq (lit ''-'')
      (Seq (Group 1 (Alt (Seq (rep 3 (Sym Digit)) (Star (Sym Digit))) (lit ''unknown'')))
      (Seq (lit ''-'')
      (Seq (Opt (Group 2 (Seq (plus_re (Sym Digit)) (Group 3 (Seq (lit '' '') (plus_re (Sym Digit)))))))
      (Seq (lit ''-'') (Seq (Opt (lit ''-''))
      (Seq (plus_re (Sym Digit))
      (Seq (Opt (Group 4 (Seq (lit '' '') (plus_re (Sym Digit)))))
      (Seq (lit ''-'') (Seq (Opt (lit ''-''))
      (Seq (plus_re (Sym Digit))
      (Seq (Opt (Group 5 (Seq (Sym (OneOf ''. '')) (plus_re (Sym Digit)))))
      (Seq (lit '' EV-'') (Seq (Opt (lit ''-''))
      (Seq (plus_re (Sym Digit))
      (Seq (Group 6 (Seq (Sym (OneOf ''. '')) (plus_re (Sym Digit))))
      (Seq (lit ''B-ISO '')
      (Seq (plus_re (Sym Digit))
      (Seq (lit ''-'')
      (Seq (Star (Sym AnyChar))
      (Seq (lit ''.arw'') Eol))))))))))))))))))))))))"

text \<open>The flag constant \<^verbatim>\<open>re.IGNORECASE\<close>, an integer.\<close>

definition IGNORECASE :: nat where
  "IGNORECASE = 2"

subsection \<open>\<^verbatim>\<open>Workflow.update_format\<close>\<close>

text \<open>
  The second argument of \<^verbatim>\<open>old_format_regex.match(filename, re.IGNORECASE)\<close> is the
  parameter \<open>pos\<close> of \<^verbatim>\<open>Pattern.match\<close>. \<open>update_dir\<close> is the inner loop over the file names
  of one directory, \<open>update_walk\<close> the loop over what \<^verbatim>\<open>os.walk\<close> yields. The existence
  check and the rename use \<open>new_name\<close> as it is, without the directory.
\<close>

fun update_dir ::
  "workflow \<Rightarrow> string \<Rightarrow> string list \<Rightarrow> (string \<times> string) list \<Rightarrow> world
     \<Rightarrow> (error + (string \<times> string) list) \<times> world" where
  "update_dir self root [] res w = (Inr res, w)"
| "update_dir self root (filename # rest) res w =
     (case py_match old_format_regex filename IGNORECASE of
        None \<Rightarrow> update_dir self root rest res w
      | Some gs \<Rightarrow>
          (case generate_name (Photo w) (PathStr (path_join root filename)) False
                  (Some [''number'' \<mapsto> group filename gs 1]) of
             Inl e \<Rightarrow> (Inl e, w)
           | Inr new_name \<Rightarrow>
               (let res' = dict_set (path_join root filename) (path_join root new_name) res
                in if path_exists w new_name then update_dir self root rest res' w
                   else if \<not> dry_run self then
                     (case os_rename (path_join root filename) new_name w of
                        (Inl e, w') \<Rightarrow> (Inl e, w')
                      | (Inr u, w') \<Rightarrow> update_dir self root rest res' w')
                   else update_dir self root rest res' w)))"

fun update_walk ::
  "workflow \<Rightarrow> (string \<times> string list) list \<Rightarrow> (string \<times> string) list \<Rightarrow> world
     \<Rightarrow> (error + (string \<times> string) list) \<times> world" where
  "update_walk self [] res w = (Inr res, w)"
| "update_walk self ((root, filenames) # rest) res w =
     (case update_dir self root filenames res w of
        (Inl e, w') \<Rightarrow> (Inl e, w')
      | (Inr res', w') \<Rightarrow> update_walk self rest res' w')"

definition update_format :: "workflow \<Rightarrow> world \<Rightarrow> (error + (string \<times> string) list) \<times> world" where
  "update_format self w =
     (if \<not> path_exists w (raw_path self) then (Inl FileNotFoundError, w)
      else update_walk self (walk w (raw_path self)) [] w)"

section \<open>Example inputs\<close>

text \<open>
  A \<^verbatim>\<open>Photo\<close> constructor that finds no metadata: every attribute is \<^verbatim>\<open>None\<close> except the
  path, the number given as keyword argument, and the extension, which is the text after the
  last full stop of the path.
\<close>

definition blank_photo :: photo_ctor where
  "blank_photo s n = \<lparr>path = s, number = (case n of None \<Rightarrow> PNone | Some v \<Rightarrow> v),
     exposure_bias = PNone, exposure_value = PNone, brightness = PNone, iso = PNone, ss = PNone,
     lens = PNone, extension = rev (takeWhile (\<lambda>c. c \<noteq> CHR ''.'') (rev s)), date = PNone,
     camera = PNone, checksum = ''h:'' @ s\<rparr>"

text \<open>The photo of the example in the specification (no shutter speed recorded).\<close>

definition example_photo :: photo where
  "example_photo = \<lparr>path = ''I:/DCIM/100MSDCF/JAM_1234.arw'', number = PText ''1234'',
     exposure_bias = PText ''-2 7'', exposure_value = PText ''10'', brightness = PText ''8.27'',
     iso = PText ''800'', ss = PNone, lens = PText ''SAMYANG AF 12mm F2.0'', extension = ''arw'',
     date = PDate \<lparr>year = 2023, month = 8, day = 5\<rparr>, camera = PText ''a7r4'',
     checksum = ''a1b2c3d4''\<rparr>"

text \<open>A workflow whose archive root is 223 characters long.\<close>

definition deep_workflow :: workflow where
  "deep_workflow = \<lparr>raw_path = ''R:/'' @ concat (replicate 20 ''photograph/''), jpg_path = ''P:/jpgs/'',
     backup_path = ''S:/SD Backup/'', raw_extension = ''arw'', dry_run = False, sd_card = ''I:/''\<rparr>"

text \<open>
  A world in which every subprocess exits with status 1, with no files and no directories,
  and three attempts configured.
\<close>

definition failing_world :: world where
  "failing_world = \<lparr>files = Map.empty, dirs = (\<lambda>p. False), calls = [], stdin = [],
     bucket_cache = None, MAX_RETRIES = 3, run_cmd = (\<lambda>k argv. Exit 1), writeable = (\<lambda>p. True),
     walk = (\<lambda>top. []), Photo = blank_photo, is_jpg = (\<lambda>p. False),
     determine_subpath = (\<lambda>p. []), list_file = (\<lambda>d. d @ ''files.txt''),
     validate_checksums = (\<lambda>c d. True), validate_checksum_list = (\<lambda>c f. True)\<rparr>"

text \<open>
  The workflow of the reference deployment, and a world in which every stage succeeds: the
  four roots exist and are writeable, every subprocess exits with status 0, every checksum
  validation passes. The card holds the files named by \<open>card_files\<close>.
\<close>

definition card_workflow :: workflow where
  "card_workflow = \<lparr>raw_path = ''R:/'', jpg_path = ''P:/jpgs/'', backup_path = ''S:/SD Backup/'',
     raw_extension = ''arw'', dry_run = False, sd_card = ''I:/''\<rparr>"

definition card_world :: "string list \<Rightarrow> world" where
  "card_world card_files = \<lparr>files = Map.empty,
     dirs = (\<lambda>p. p \<in> set [''I:/'', ''R:/'', ''P:/jpgs/'', ''S:/SD Backup/'']),
     calls = [], stdin = [], bucket_cache = None, MAX_RETRIES = 3,
     run_cmd = (\<lambda>k argv. Exit 0), writeable = (\<lambda>p. True),
     walk = (\<lambda>top. if top = ''I:/'' then [(''I:/DCIM/100MSDCF'', card_files)] else []),
     Photo = blank_photo, is_jpg = (\<lambda>p. extension p = ''jpg''),
     determine_subpath = (\<lambda>p. ''100MSDCF''), list_file = (\<lambda>d. d @ ''files.txt''),
     validate_checksums = (\<lambda>c d. True), validate_checksum_list = (\<lambda>c f. True)\<rparr>"

text \<open>
  A world after a second import of a same-named file with other content: the staging
  bucket holds \<^verbatim>\<open>R:/Import Bucket/100MSDCF/JAM_1234.arw\<close>, and the canonical path of that
  file (the one the path builder gives for a photo without metadata and without date) is
  taken by the file organized before; \<open>taken\<close> lists further paths that are taken.
\<close>

definition canonical_path :: string where
  "canonical_path =
     ''R://0000/0000-00-00/00000000_None_None_NoneEB_NoneEV_NoneB_NoneISO_NoneSS_None.arw''"

definition collision_world :: "string list \<Rightarrow> world" where
  "collision_world taken = (card_world [])\<lparr>
     files :=
       (\<lambda>p. if p = ''R:/Import Bucket/100MSDCF/JAM_1234.arw'' then Some ''content-b''
            else if p = canonical_path \<or> p \<in> set taken then Some ''content-a''
            else None),
     walk := (\<lambda>top. if top = ''R:/Import Bucket''
                     then [(''R:/Import Bucket/100MSDCF'', [''JAM_1234.arw''])] else [])\<rparr>"

text \<open>
  The file name that the comment in \<^verbatim>\<open>update_format\<close> gives as the old format, and a world
  whose archive holds one file of that name.
\<close>

definition old_name :: string where
  "old_name = ''20230805-a7r4-1935--7-10 EV-8.27B-ISO 800-SAMYANG AF 12mm F2.0.arw''"

definition legacy_world :: world where
  "legacy_world = (card_world [])\<lparr>
     walk := (\<lambda>top. if top = ''R:/'' then [(''R:/2023/2023-08-05'', [old_name])] else []),
     files := [''R:/2023/2023-08-05/'' @ old_name \<mapsto> ''content-a'']\<rparr>"

section \<open>Properties of the Path Builder\<close>

lemma dot_notin_replace_dots: "CHR ''.'' \<notin> set (replace_dots s)"
  by (auto simp: replace_dots_def)

lemma length_fmt_Y: "length (fmt_Y d) = 4"
  by (simp add: fmt_Y_def d4_def)

lemma length_fmt_Y_m_d: "length (fmt_Y_m_d d) = 10"
  by (simp add: fmt_Y_m_d_def d4_def d2_def)

lemma dict_get_other: "k \<noteq> k' \<Longrightarrow> dict_get (d(k := v)) k' x = dict_get d k' x"
  by (simp add: dict_get_def)

lemma example_full_name:
  "generate_name blank_photo (PhotoObj example_photo) False (Some Map.empty)
     = Inr ''20230805_a7r4_1234_-2 7EB_10EV_8 27B_800ISO_NoneSS_SAMYANG AF 12mm F2 0.arw''"
  by code_simp

text \<open>
  As the method is written, it never returns a path: its first statement after the
  conversion of the argument is \<^verbatim>\<open>self.generate_name(photo)\<close>, which raises.
\<close>

lemma generate_path_raises: "generate_path ctor self arg = Inl AttributeError"
  by (simp add: generate_path_def generate_path_with_def generate_name_def)

text \<open>
  With a dictionary passed for \<^verbatim>\<open>properties\<close>, a returned path has at most 255 characters:
  the budget reserves 16 characters for \<^verbatim>\<open>2023/2023-01-05/\<close>, and the path has one more
  separator, between the archive root and the year.
\<close>

lemma generate_path_with_length:
  assumes "generate_path_with properties ctor self arg = Inr p"
  shows "length p \<le> 255"
  using assms unfolding generate_path_with_def Let_def
  by (auto split: sum.splits if_splits pyval.splits
           simp: format_date_def length_fmt_Y length_fmt_Y_m_d)

text \<open>
  In the truncation branch the returned path has exactly 255 characters.
\<close>

lemma generate_path_with_truncated:
  assumes "generate_name ctor (PhotoObj ph) False properties = Inr full_name"
    and "generate_name ctor (PhotoObj ph) True properties = Inr short_name"
    and "buffer = 254 - int (length (raw_path self)) - int (length (extension ph)) - 4 - 16"
    and "1 \<le> buffer" and "buffer < int (length full_name)" and "buffer < int (length short_name)"
    and "generate_path_with properties ctor self (PhotoObj ph) = Inr p"
  shows "length p = 255"
  using assms unfolding generate_path_with_def Let_def
  by (auto split: sum.splits if_splits pyval.splits
           simp: format_date_def length_fmt_Y length_fmt_Y_m_d)

text \<open>
  C1. \<^verbatim>\<open>generate_path\<close> is claimed to fail with a path-too-long error or to return a path
  of at most 254 characters. For the example photo under an archive root of 223 characters
  the method raises \<^verbatim>\<open>AttributeError\<close> (from \<^verbatim>\<open>generate_name\<close> called without
  \<^verbatim>\<open>properties\<close>); and its body run with an empty \<^verbatim>\<open>properties\<close> dictionary takes the
  truncation branch and returns a path of 255 characters.
\<close>

theorem generate_path_example_fails:
  "generate_path blank_photo deep_workflow (PhotoObj example_photo) = Inl AttributeError
   \<and> map_sum id length
        (generate_path_with (Some Map.empty) blank_photo deep_workflow (PhotoObj example_photo))
       = Inr 255"
  by code_simp

text \<open>
  C7. Whatever the photo, the overrides and the mode, a name returned by
  \<^verbatim>\<open>generate_name\<close> is a stem without any full stop, then one full stop, then the
  extension as given (which is not rewritten).
\<close>

theorem generate_name_no_dot:
  "generate_name ctor arg short (Some props) = Inr r \<Longrightarrow>
   \<exists>stem. CHR ''.'' \<notin> set stem \<and>
      r = stem @ ''.'' @ py_str (dict_get props ''extension''
                                  (PText (extension (resolve_photo ctor arg (Some props)))))"
  unfolding generate_name_def Let_def
  by (auto split: if_splits sum.splits simp: dot_notin_replace_dots)

theorem generate_name_no_dot_witness:
  "generate_name blank_photo (PhotoObj example_photo) False (Some Map.empty)
     = Inr ''20230805_a7r4_1234_-2 7EB_10EV_8 27B_800ISO_NoneSS_SAMYANG AF 12mm F2 0.arw''
   \<and> (\<exists>stem. CHR ''.'' \<notin> set stem \<and>
        ''20230805_a7r4_1234_-2 7EB_10EV_8 27B_800ISO_NoneSS_SAMYANG AF 12mm F2 0.arw''
          = stem @ ''.arw'')"
proof -
  have ext: "py_str (dict_get Map.empty ''extension''
               (PText (extension (resolve_photo blank_photo (PhotoObj example_photo) (Some Map.empty)))))
             = ''arw''"
    by (simp add: resolve_photo_def dict_get_def py_str_def example_photo_def)
  from generate_name_no_dot [OF example_full_name] show ?thesis
    unfolding ext by (simp add: example_full_name)
qed

text \<open>
  C4. The short name is claimed to hold the sequence number and the exposure fields only,
  without date, camera, lens, ISO and shutter speed; the docstring of \<^verbatim>\<open>generate_name\<close>
  gives \<^verbatim>\<open>1234_-2 7_10EV_8.27B.arw\<close> for the photo of its example. For that photo, with an
  empty override dictionary, the method returns a short name that carries the ISO value
  and the \<^verbatim>\<open>ISO\<close> and \<^verbatim>\<open>SS\<close> labels, and that changes when only the ISO value changes.
\<close>

theorem short_name_keeps_iso:
  "generate_name blank_photo (PhotoObj example_photo) True (Some Map.empty)
     = Inr ''1234_-2 7EB_10EV_8 27B_800ISO_NoneSS.arw''
   \<and> generate_name blank_photo (PhotoObj (example_photo\<lparr>iso := PText ''100''\<rparr>)) True (Some Map.empty)
     = Inr ''1234_-2 7EB_10EV_8 27B_100ISO_NoneSS.arw''
   \<and> generate_name blank_photo (PhotoObj example_photo) True (Some Map.empty)
     \<noteq> Inr ''1234_-2 7_10EV_8.27B.arw''"
  by code_simp

text \<open>
  What the short name does omit: it does not change when the date, the camera or the lens
  change, in the photo or in the overrides. It is the sequence number, exposure bias,
  exposure value, brightness, ISO and shutter speed, each followed by its label, with full
  stops replaced, then the extension.
\<close>

lemma short_name_omits_date_camera_lens:
  "generate_name ctor (PhotoObj p) True (Some props) =
     generate_name ctor (PhotoObj (p\<lparr>date := dv, camera := cv, lens := lv\<rparr>)) True
       (Some (props(''date'' := dv', ''camera'' := cv', ''lens'' := lv')))
   \<and> generate_name ctor (PhotoObj p) True (Some props) =
       Inr (replace_dots
              (py_str (dict_get props ''number'' (number p)) @ ''_''
               @ py_str (dict_get props ''exposure_bias'' (exposure_bias p)) @ ''EB_''
               @ py_str (dict_get props ''exposure_value'' (exposure_value p)) @ ''EV_''
               @ py_str (dict_get props ''brightness'' (brightness p)) @ ''B_''
               @ py_str (dict_get props ''iso'' (iso p)) @ ''ISO_''
               @ py_str (dict_get props ''ss'' (ss p)) @ ''SS'')
            @ ''.'' @ py_str (dict_get props ''extension'' (PText (extension p))))"
  by (simp add: generate_name_def resolve_photo_def Let_def dict_get_other)

section \<open>Properties of the Copy Executor\<close>

lemma check_call_fails:
  "run_cmd w (length (calls w)) argv = Exit rc \<Longrightarrow> rc \<noteq> 0 \<Longrightarrow>
   check_call argv w = (Inl (CalledProcessError rc), w\<lparr>calls := calls w @ [argv]\<rparr>)"
  by (simp add: check_call_def)

lemma rsync_attempts_all_fail:
  assumes "\<forall>k. \<exists>rc. rc \<noteq> 0 \<and> run_cmd w k [''rsync'', ''-av'', ''--checksum'', src, dst] = Exit rc"
  shows "rsync_attempts n src dst w
         = (Inr False, w\<lparr>calls := calls w @ replicate n [''rsync'', ''-av'', ''--checksum'', src, dst]\<rparr>)"
  using assms
proof (induction n arbitrary: w)
  case 0
  then show ?case by simp
next
  case (Suc n)
  let ?argv = "[''rsync'', ''-av'', ''--checksum'', src, dst]"
  from Suc.prems obtain rc where rc: "rc \<noteq> 0" "run_cmd w (length (calls w)) ?argv = Exit rc"
    by blast
  let ?w' = "w\<lparr>calls := calls w @ [?argv]\<rparr>"
  have step: "check_call ?argv w = (Inl (CalledProcessError rc), ?w')"
    using rc by (rule_tac check_call_fails) auto
  have "\<forall>k. \<exists>rc. rc \<noteq> 0 \<and> run_cmd ?w' k ?argv = Exit rc"
    using Suc.prems by simp
  from Suc.IH [OF this] show ?case
    by (simp add: step replicate_append_same)
qed

text \<open>
  C8. When every attempt of the \<^verbatim>\<open>rsync\<close> command exits with a non-zero status, \<^verbatim>\<open>rsync\<close>
  returns false (it does not raise), and it has run the command exactly \<open>MAX_RETRIES\<close> times
  and done nothing else.
\<close>

theorem rsync_retries_exhausted:
  assumes "0 \<le> MAX_RETRIES w"
    and "\<forall>k. \<exists>rc. rc \<noteq> 0 \<and> run_cmd w k [''rsync'', ''-av'', ''--checksum'', src, dst] = Exit rc"
  shows "fst (rsync src dst w) = Inr False
       \<and> snd (rsync src dst w)
           = w\<lparr>calls := calls w @ replicate (nat (MAX_RETRIES w)) [''rsync'', ''-av'', ''--checksum'', src, dst]\<rparr>
       \<and> int (length (calls (snd (rsync src dst w)))) = int (length (calls w)) + MAX_RETRIES w"
  using assms by (simp add: rsync_def rsync_attempts_all_fail)

theorem rsync_retries_exhausted_witness:
  "0 \<le> MAX_RETRIES failing_world
   \<and> (\<forall>k. \<exists>rc. rc \<noteq> 0 \<and> run_cmd failing_world k [''rsync'', ''-av'', ''--checksum'', ''I:/'', ''S:/SD Backup/''] = Exit rc)
   \<and> fst (rsync ''I:/'' ''S:/SD Backup/'' failing_world) = Inr False
   \<and> calls (snd (rsync ''I:/'' ''S:/SD Backup/'' failing_world))
       = [[''rsync'', ''-av'', ''--checksum'', ''I:/'', ''S:/SD Backup/''],
          [''rsync'', ''-av'', ''--checksum'', ''I:/'', ''S:/SD Backup/''],
          [''rsync'', ''-av'', ''--checksum'', ''I:/'', ''S:/SD Backup/'']]"
proof -
  have a: "0 \<le> MAX_RETRIES failing_world" by (simp add: failing_world_def)
  have b: "\<forall>k. \<exists>rc. rc \<noteq> 0 \<and> run_cmd failing_world k [''rsync'', ''-av'', ''--checksum'', ''I:/'', ''S:/SD Backup/''] = Exit rc"
    by (simp add: failing_world_def)
  have c: "nat (MAX_RETRIES failing_world) = Suc (Suc (Suc 0))" "calls failing_world = []"
    by (simp_all add: failing_world_def)
  from rsync_retries_exhausted [OF a b] show ?thesis
    using a b by (simp add: c)
qed

text \<open>
  C9. When the list file does not exist or dry-run is on, \<^verbatim>\<open>copy_from_list\<close> raises and
  leaves the world as it was: no subprocess has been started and no prompt shown. With
  the default operation the error is \<^verbatim>\<open>NotImplementedError\<close> under dry-run and
  \<^verbatim>\<open>FileNotFoundError\<close> for a missing list otherwise.
\<close>

theorem copy_from_list_fails_fast:
  assumes "\<not> path_exists w list_path \<or> dry_run self"
  shows "copy_from_list self list_path destination_path checksums_before operation w
         = (Inl (case operation of
                   TERACOPY \<Rightarrow> if dry_run self then NotImplementedError else FileNotFoundError
                 | RSYNC \<Rightarrow> NotImplementedError
                 | OTHER \<Rightarrow> ValueError), w)"
  using assms
  by (cases operation) (auto simp: copy_from_list_def teracopy_from_list_def)

theorem copy_from_list_fails_fast_witness:
  "\<not> path_exists failing_world ''S:/files.txt''
   \<and> copy_from_list deep_workflow ''S:/files.txt'' ''S:/SD Backup/'' Map.empty TERACOPY failing_world
       = (Inl FileNotFoundError, failing_world)
   \<and> dry_run (deep_workflow\<lparr>dry_run := True\<rparr>)
   \<and> copy_from_list (deep_workflow\<lparr>dry_run := True\<rparr>) ''S:/files.txt'' ''S:/SD Backup/'' Map.empty TERACOPY failing_world
       = (Inl NotImplementedError, failing_world)"
proof -
  have a: "\<not> path_exists failing_world ''S:/files.txt''"
    by (simp add: path_exists_def failing_world_def)
  have b: "dry_run (deep_workflow\<lparr>dry_run := True\<rparr>)" by simp
  have c: "\<not> dry_run deep_workflow" by (simp add: deep_workflow_def)
  from copy_from_list_fails_fast [of failing_world "''S:/files.txt''" deep_workflow "''S:/SD Backup/''" Map.empty TERACOPY]
       copy_from_list_fails_fast [of failing_world "''S:/files.txt''" "deep_workflow\<lparr>dry_run := True\<rparr>" "''S:/SD Backup/''" Map.empty TERACOPY]
  show ?thesis using a c by simp
qed

section \<open>Properties of the Reorganizer, the Copy Queue and the Orchestrator\<close>

text \<open>
  The search for a free name returns the candidate with the least number from the start
  of the range that is not taken.
\<close>

lemma unique_name_first_free:
  assumes "a \<le> i" "i < b" "\<forall>j. a \<le> j \<and> j < i \<longrightarrow> ex (candidate base j)" "\<not> ex (candidate base i)"
  shows "unique_name ex base [a..<b] cur = candidate base i"
  using assms
proof (induction "i - a" arbitrary: a cur)
  case 0
  then have "a = i" by simp
  with 0 show ?case by (simp add: upt_conv_Cons)
next
  case (Suc n)
  then have lt: "a < i" by simp
  with Suc.prems have ab: "a < b" and taken: "ex (candidate base a)" by auto
  have "unique_name ex base [Suc a..<b] (candidate base a) = candidate base i"
    using Suc.hyps(2) Suc.prems lt by (intro Suc.hyps(1)) auto
  with ab taken show ?case by (simp add: upt_conv_Cons)
qed

text \<open>
  The loop body on a collision: when the canonical path is taken by a file of other
  content, and \<open>i\<close> is the least number from 1 to 999 for which the canonical path followed
  by a space and \<open>(i)\<close> is not taken, the staged file is moved to that path (unless dry-run)
  and recorded under it. The number goes after the whole path, extension included.
\<close>

lemma place_file_disambiguates:
  assumes "path_exists w new_file_path"
    and "\<not> compare_checksums w file_path new_file_path"
    and "1 \<le> i" and "i < 1000"
    and "\<forall>j. 1 \<le> j \<and> j < i \<longrightarrow> path_exists w (new_file_path @ '' ('' @ str_nat j @ '')'')"
    and "\<not> path_exists w (new_file_path @ '' ('' @ str_nat i @ '')'')"
    and "files w file_path = Some content"
    and "\<not> dry_run self"
  shows "place_file self file_path new_file_path res w
         = (Inr (dict_set file_path (Some (new_file_path @ '' ('' @ str_nat i @ '')'')) res),
            w\<lparr>files := (files w)(file_path := None,
                                   new_file_path @ '' ('' @ str_nat i @ '')'' \<mapsto> content)\<rparr>)"
proof -
  have "unique_name (path_exists w) new_file_path [1..<1000] new_file_path = candidate new_file_path i"
    using assms(3-6) by (intro unique_name_first_free) (auto simp: candidate_def)
  then show ?thesis
    using assms(1,2,6,7,8)
    by (simp add: place_file_def move_file_def os_rename_def candidate_def Let_def)
qed

text \<open>
  C3. Two same-named files with different content are claimed to end up as two files, the
  second with \<^verbatim>\<open> (1)\<close> before its extension. With the first file organized and the
  second staged, \<^verbatim>\<open>organize_files\<close> raises \<^verbatim>\<open>AttributeError\<close> at the staged file, from
  \<^verbatim>\<open>generate_path\<close>, and moves nothing: the staged file stays in the bucket and no second
  file appears. Run with an empty \<^verbatim>\<open>properties\<close> dictionary in place of \<^verbatim>\<open>None\<close>, the method
  moves the staged file to the canonical path followed by \<^verbatim>\<open> (1)\<close>, after the extension.
\<close>

theorem organize_files_collision_raises:
  "raised (organize_files card_workflow (collision_world [])) = Some AttributeError
   \<and> files (snd (organize_files card_workflow (collision_world [])))
        ''R:/Import Bucket/100MSDCF/JAM_1234.arw'' = Some ''content-b''
   \<and> files (snd (organize_files card_workflow (collision_world [])))
        (canonical_path @ '' (1)'') = None
   \<and> fst (organize_files_with (Some Map.empty) card_workflow (collision_world []))
       = Inr [(''R:/Import Bucket/100MSDCF/JAM_1234.arw'', Some (canonical_path @ '' (1)''))]"
  by code_simp

text \<open>
  \<^verbatim>\<open>run\<close> returns false or raises; it never returns true.
\<close>

lemma run_never_true: "fst (run self operation w) \<noteq> Inr True"
  by (auto simp: run_def call_organize_files_def split: prod.splits sum.splits)

text \<open>
  C2. \<^verbatim>\<open>run\<close> is claimed to return true when every stage succeeds. On a card with one
  JPEG file, in a world where the paths are valid, both copies succeed and every checksum
  validation passes, \<^verbatim>\<open>run\<close> runs the two copies and then raises \<^verbatim>\<open>TypeError\<close>, at
  \<^verbatim>\<open>self.organize_files(self.bucket_path)\<close>.
\<close>

theorem run_all_success_raises:
  "fst (run card_workflow TERACOPY (card_world [''JAM_1234.jpg''])) = Inl TypeError
   \<and> map hd (calls (snd (run card_workflow TERACOPY (card_world [''JAM_1234.jpg'']))))
       = [''teracopy.exe'', ''teracopy.exe'']"
  by code_simp

text \<open>
  C5. On a card with a raw file, a JPEG file and a text file, \<^verbatim>\<open>queue_files\<close> raises
  \<^verbatim>\<open>AttributeError\<close> at the raw file and builds no queue. Run with an empty
  \<^verbatim>\<open>properties\<close> dictionary in place of \<^verbatim>\<open>None\<close>, it queues the raw and the JPEG file once
  each for the backup destination and leaves the text file out, as the claim describes.
\<close>

theorem queue_files_raw_card_raises:
  "raised (queue_files card_workflow (card_world [''JAM_1234.arw'', ''JAM_1234.jpg'', ''notes.txt'']))
     = Some AttributeError
   \<and> map_sum id (\<lambda>q. map path (queued_for q ''S:/SD Backup/''))
        (fst (queue_files_with (Some Map.empty) card_workflow
                (card_world [''JAM_1234.arw'', ''JAM_1234.jpg'', ''notes.txt''])))
       = Inr [''I:/DCIM/100MSDCF/JAM_1234.arw'', ''I:/DCIM/100MSDCF/JAM_1234.jpg'']"
  by code_simp

text \<open>
  C6. On a card with one raw file whose canonical path is not taken, \<^verbatim>\<open>queue_files\<close>
  raises \<^verbatim>\<open>AttributeError\<close> instead of appending the file to the staging list. Run with an
  empty \<^verbatim>\<open>properties\<close> dictionary in place of \<^verbatim>\<open>None\<close>, it appends it.
\<close>

theorem queue_files_stages_nothing:
  "raised (queue_files card_workflow (card_world [''JAM_1234.arw''])) = Some AttributeError
   \<and> map_sum id (\<lambda>q. map path (queued_for q ''R:/Import Bucket''))
        (fst (queue_files_with (Some Map.empty) card_workflow (card_world [''JAM_1234.arw''])))
       = Inr [''I:/DCIM/100MSDCF/JAM_1234.arw'']"
  by code_simp

section \<open>Properties of the legacy-format migration\<close>

text \<open>
  A pattern that begins with \<^verbatim>\<open>^\<close> has no match that is tried at an index other than 0.
\<close>

lemma rmatch_bol_later: "0 < fst st \<Longrightarrow> rmatch (Seq Bol r) s st = []"
  by simp

text \<open>
  With \<open>pos = re.IGNORECASE = 2\<close> the match is tried at index 2, or at index 1 for a name
  of one character, where \<^verbatim>\<open>^\<close> fails; for the empty name it is tried at index 0, where
  \<^verbatim>\<open>\d{8}\<close> fails. So no file name matches.
\<close>

lemma old_format_no_match: "py_match old_format_regex filename IGNORECASE = None"
proof (cases "filename = []")
  case True
  then show ?thesis
    by (simp add: py_match_def old_format_regex_def IGNORECASE_def eval_nat_numeral)
next
  case False
  then have "0 < fst (min IGNORECASE (length filename), [] :: (nat \<times> nat \<times> nat) list)"
    by (simp add: IGNORECASE_def)
  then show ?thesis
    unfolding py_match_def old_format_regex_def by (simp only: rmatch_bol_later list.case)
qed

lemma update_dir_nothing: "update_dir self root filenames res w = (Inr res, w)"
  by (induction filenames) (simp_all add: old_format_no_match)

lemma update_walk_nothing: "update_walk self dirs' res w = (Inr res, w)"
  by (induction dirs') (auto simp: update_dir_nothing)

text \<open>
  C10. Because \<^verbatim>\<open>re.IGNORECASE\<close> is passed as the start index of the match, no file name
  matches the old-format pattern, those in the old format included; so \<^verbatim>\<open>update_format\<close>,
  when the archive root exists, renames nothing, changes nothing and returns an empty
  mapping.
\<close>

theorem update_format_renames_nothing:
  assumes "path_exists w (raw_path self)"
  shows "py_match old_format_regex filename IGNORECASE = None
       \<and> update_format self w = (Inr [], w)"
  using assms by (simp add: old_format_no_match update_format_def update_walk_nothing)

text \<open>
  The documented example of the old format does match when the match is tried at index 0,
  with the photo number as group 1.
\<close>

lemma old_name_is_old_format:
  "map_option (\<lambda>gs. group old_name gs 1) (py_match old_format_regex old_name 0) = Some (PText ''1935'')"
  by code_simp

theorem update_format_renames_nothing_witness:
  "path_exists legacy_world (raw_path card_workflow)
   \<and> walk legacy_world (raw_path card_workflow) = [(''R:/2023/2023-08-05'', [old_name])]
   \<and> map_option (\<lambda>gs. group old_name gs 1) (py_match old_format_regex old_name 0) = Some (PText ''1935'')
   \<and> py_match old_format_regex old_name IGNORECASE = None
   \<and> update_format card_workflow legacy_world = (Inr [], legacy_world)"
proof -
  have h: "path_exists legacy_world (raw_path card_workflow)"
    by (simp add: path_exists_def legacy_world_def card_world_def card_workflow_def)
  have wk: "walk legacy_world (raw_path card_workflow) = [(''R:/2023/2023-08-05'', [old_name])]"
    by (simp add: legacy_world_def card_workflow_def)
  from update_format_renames_nothing [OF h, of old_name] show ?thesis
    using h wk old_name_is_old_format by simp
qed

end
